theory Spec2Isabelle
  imports Main "HOL-Library.AList"
begin

section \<open>JavaScript values and objects\<close>

text \<open>
  The module \<^verbatim>\<open>src/model/interceptors.ts\<close> builds plain JavaScript objects and merges
  them field by field. An object is modelled as an association list from property names
  to values, in insertion order and with one entry per name. The two arrow functions
  stored in the table under \<^verbatim>\<open>checkRequirements\<close> are named by a datatype and run by
  the function \<open>checkRequirements\<close> below.
\<close>

datatype checkRequirements_fn =
    electron_checkRequirements
  | android_device_checkRequirements

datatype jsval =
    JUndefined
  | JNull
  | JBool bool
  | JNum int
  | JStr string
  | JArr "jsval list"
  | JObj "(string \<times> jsval) list"
  | JImport string
  | JDefaults jsval jsval
  | JFun checkRequirements_fn

text \<open>
  \<open>JImport n\<close> is the value of the imported binding \<open>n\<close> (an icon of \<^verbatim>\<open>SourceIcons\<close>,
  a custom UI component); its content is outside this module and never inspected by it.
  \<open>JDefaults a b\<close> is the object \<^verbatim>\<open>_.defaults(a, b)\<close>, kept symbolic for the same reason.
\<close>

type_synonym obj = "(string \<times> jsval) list"

text \<open>Property read \<^verbatim>\<open>o.k\<close>: a missing property reads as \<^verbatim>\<open>undefined\<close>.\<close>

definition get :: "obj \<Rightarrow> string \<Rightarrow> jsval" where
  "get object key = (case map_of object key of None \<Rightarrow> JUndefined | Some v \<Rightarrow> v)"

text \<open>JavaScript truthiness, as used by \<^verbatim>\<open>!\<close>, \<^verbatim>\<open>&&\<close>, \<^verbatim>\<open>||\<close> and \<^verbatim>\<open>if\<close>.\<close>

fun truthy :: "jsval \<Rightarrow> bool" where
  "truthy JUndefined = False"
| "truthy JNull = False"
| "truthy (JBool b) = b"
| "truthy (JNum n) = (n \<noteq> 0)"
| "truthy (JStr s) = (s \<noteq> [])"
| "truthy (JArr _) = True"
| "truthy (JObj _) = True"
| "truthy (JImport _) = True"
| "truthy (JDefaults _ _) = True"
| "truthy (JFun _) = True"

subsection \<open>The lodash functions the module calls\<close>

text \<open>
  \<^verbatim>\<open>_.assign(object, ...sources)\<close> copies the own properties of each source onto the
  target, sources from left to right: a property already on the target is overwritten in
  place, a new one is appended.
\<close>

definition assign :: "obj \<Rightarrow> obj list \<Rightarrow> obj" where
  "assign object sources =
     fold (\<lambda>source target. fold (\<lambda>(key, v). AList.update key v) source target) sources object"

text \<open>
  \<^verbatim>\<open>_.mapValues(object, iteratee)\<close> keeps the keys of the object and replaces each value
  by \<^verbatim>\<open>iteratee(value, key)\<close>.
\<close>

definition mapValues :: "(string \<times> 'a) list \<Rightarrow> ('a \<Rightarrow> string \<Rightarrow> 'b) \<Rightarrow> (string \<times> 'b) list" where
  "mapValues object iteratee = map (\<lambda>(key, v). (key, iteratee v key)) object"

section \<open>Server interceptors\<close>

text \<open>
  Modelled from the spec: the type \<^verbatim>\<open>ServerInterceptor\<close> is declared in
  \<^verbatim>\<open>services/server-api\<close>, which is not among the sources. The spec gives a status
  record an \<^verbatim>\<open>id\<close>, a \<^verbatim>\<open>version\<close> string, the flags \<^verbatim>\<open>isActive\<close> and \<^verbatim>\<open>isActivable\<close>, and
  arbitrary additional fields.
\<close>

record ServerInterceptor =
  id_s :: string
  version :: string
  isActive :: bool
  isActivable :: bool
  extra :: obj

text \<open>
  The own properties of a status object, as \<^verbatim>\<open>_.assign\<close> sees them: the additional
  fields, and the four declared ones, which an additional field cannot replace.
\<close>

definition ServerInterceptor_fields :: "ServerInterceptor \<Rightarrow> obj" where
  "ServerInterceptor_fields s =
     assign [] [extra s,
       [(''id'', JStr (id_s s)),
        (''version'', JStr (version s)),
        (''isActive'', JBool (isActive s)),
        (''isActivable'', JBool (isActivable s))]]"

text \<open>
  \<^verbatim>\<open>_.keyBy(collection, 'id')\<close>: an object keyed by the \<^verbatim>\<open>id\<close> of each element, filled
  by assigning the elements in order. The module reads it only at the ids of its table,
  none of which names a property that every JavaScript object inherits.
\<close>

definition keyBy_id :: "ServerInterceptor list \<Rightarrow> (string \<times> ServerInterceptor) list" where
  "keyBy_id collection = fold (\<lambda>v result. AList.update (id_s v) v result) collection []"

section \<open>The static table\<close>

definition BROWSER_TAGS :: "string list" where
  "BROWSER_TAGS = [''browsers'', ''web page'', ''web app'', ''javascript'']"

definition MOBILE_TAGS :: "string list" where
  "MOBILE_TAGS = [''mobile'', ''phone'', ''app'']"

definition ANDROID_TAGS :: "string list" where
  "ANDROID_TAGS = [''samsung'', ''galaxy'', ''nokia'', ''lg'', ''android'', ''google'', ''motorola'']"

definition IOS_TAGS :: "string list" where
  "IOS_TAGS = [''apple'', ''ios'', ''iphone'', ''ipad'']"

definition DOCKER_TAGS :: "string list" where
  "DOCKER_TAGS = [''bridge'', ''services'', ''images'']"

definition MANUAL_INTERCEPT_ID :: string where
  "MANUAL_INTERCEPT_ID = ''manual-setup''"

definition tags_value :: "string list \<Rightarrow> jsval" where
  "tags_value ts = JArr (map JStr ts)"

definition INTERCEPT_OPTIONS :: "(string \<times> obj) list" where
  "INTERCEPT_OPTIONS =
   [(''docker-all'',
      [(''name'', JStr ''All Docker Containers''),
       (''description'', JStr ''Intercept all local Docker traffic''),
       (''iconProps'', JImport ''SourceIcons.Docker''),
       (''tags'', tags_value DOCKER_TAGS)]),
    (''docker-specific'',
      [(''name'', JStr ''Specific Docker Containers''),
       (''description'', JStr ''Intercept all traffic from specific Docker containers''),
       (''iconProps'', JImport ''SourceIcons.Docker''),
       (''tags'', tags_value DOCKER_TAGS)]),
    (''fresh-chrome'',
      [(''name'', JStr ''Fresh Chrome''),
       (''description'', JStr ''Open a preconfigured fresh Chrome window''),
       (''iconProps'', JImport ''SourceIcons.Chrome''),
       (''tags'', tags_value BROWSER_TAGS)]),
    (''fresh-firefox'',
      [(''name'', JStr ''Fresh Firefox''),
       (''description'', JStr ''Open a preconfigured fresh Firefox window''),
       (''iconProps'', JImport ''SourceIcons.Firefox''),
       (''tags'', tags_value BROWSER_TAGS)]),
    (''fresh-safari'',
      [(''name'', JStr ''Fresh Safari''),
       (''description'', JStr ''Open a preconfigured fresh Safari window''),
       (''iconProps'', JImport ''SourceIcons.Safari''),
       (''tags'', tags_value BROWSER_TAGS)]),
    (''fresh-edge'',
      [(''name'', JStr ''Fresh Edge''),
       (''description'', JStr ''Open a preconfigured fresh Edge window''),
       (''iconProps'', JImport ''SourceIcons.Edge''),
       (''tags'', tags_value BROWSER_TAGS)]),
    (''fresh-terminal'',
      [(''name'', JStr ''Fresh Terminal''),
       (''description'',
          JStr ''Open a new terminal preconfigured to intercept all launched processes''),
       (''iconProps'', JImport ''SourceIcons.Terminal''),
       (''tags'', tags_value [''terminal'', ''command line'', ''cli'', ''bash'', ''cmd'',
          ''shell'', ''php'', ''ruby'', ''node'', ''js''])]),
    (''existing-terminal'',
      [(''name'', JStr ''Existing Terminal''),
       (''description'',
          JStr ''Intercept all launched processes from one of your existing terminal windows''),
       (''iconProps'',
          JDefaults (JObj [(''color'', JStr ''#dd44dd'')]) (JImport ''SourceIcons.Terminal'')),
       (''uiConfig'', JImport ''ExistingTerminalCustomUi''),
       (''tags'', tags_value [''terminal'', ''command line'', ''cli'', ''bash'', ''cmd'',
          ''shell'', ''php'', ''ruby'', ''node'', ''js''])]),
    (''electron'',
      [(''name'', JStr ''Electron Application''),
       (''description'',
          JStr ''Launch an Electron application with all its traffic intercepted''),
       (''iconProps'', JImport ''SourceIcons.Electron''),
       (''uiConfig'', JImport ''ElectronCustomUi''),
       (''checkRequirements'', JFun electron_checkRequirements),
       (''tags'', tags_value [''electron'', ''desktop'', ''postman''])]),
    (''android-device'',
      [(''name'', JStr ''An Android device''),
       (''description'',
          JStr ''Intercept all HTTP traffic from an Android device on your network''),
       (''iconProps'', JImport ''SourceIcons.Android''),
       (''checkRequirements'', JFun android_device_checkRequirements),
       (''clientOnly'', JBool True),
       (''uiConfig'', JImport ''AndroidCustomUi''),
       (''tags'', tags_value (MOBILE_TAGS @ ANDROID_TAGS))]),
    (''ios-device'',
      [(''name'', JStr ''An iOS device''),
       (''description'',
          JStr ''Intercept all HTTP traffic from an iOS device on your network''),
       (''iconProps'', JImport ''SourceIcons.iOS''),
       (''tags'', tags_value (MOBILE_TAGS @ IOS_TAGS))]),
    (''network-device'',
      [(''name'', JStr ''A device on your network''),
       (''description'',
          JStr ''Intercept all HTTP traffic from another device on your network''),
       (''iconProps'', JImport ''SourceIcons.Network''),
       (''tags'', tags_value (MOBILE_TAGS @ IOS_TAGS @ ANDROID_TAGS @
          [''lan'', ''arp'', ''wifi'']))]),
    (''virtualbox-machine'',
      [(''name'', JStr ''A virtualbox VM''),
       (''description'', JStr ''Intercept all traffic from a Virtualbox VM''),
       (''iconProps'', JImport ''SourceIcons.Desktop''),
       (''tags'', tags_value [''virtual machine'', ''vagrant''])]),
    (''system-proxy'',
      [(''name'', JStr ''Everything''),
       (''description'', JStr ''Intercept all HTTP traffic on this machine''),
       (''iconProps'', JImport ''SourceIcons.Desktop''),
       (''tags'', tags_value [''local'', ''machine'', ''system'', ''me''])]),
    (MANUAL_INTERCEPT_ID,
      [(''name'', JStr ''Anything''),
       (''description'',
          JStr ''Manually configure any source using the proxy settings and CA certificate''),
       (''iconProps'', JImport ''SourceIcons.Unknown''),
       (''clientOnly'', JBool True),
       (''uiConfig'', JImport ''ManualInterceptCustomUi''),
       (''tags'', tags_value [])])]"

section \<open>Requirement checks\<close>

text \<open>
  The two \<^verbatim>\<open>checkRequirements\<close> functions of the table. Both delegate to
  \<^verbatim>\<open>semver.satisfies(version, range)\<close> of the external semver package, typed as returning
  a boolean; it is the parameter \<open>satisfies\<close>, whose first argument is an absent
  (\<^verbatim>\<open>undefined\<close>) or present version string. The constant \<^verbatim>\<open>DETAILED_CONFIG_RANGE\<close> is
  declared in \<^verbatim>\<open>services/service-versions\<close>, which is not among the sources; it is a
  parameter too. The options object of the call is passed as its three fields.
\<close>

type_synonym satisfies_fn = "string option \<Rightarrow> string \<Rightarrow> bool"

fun checkRequirements ::
  "satisfies_fn \<Rightarrow> string \<Rightarrow> checkRequirements_fn \<Rightarrow>
   string option \<Rightarrow> string list \<Rightarrow> string option \<Rightarrow> bool" where
  "checkRequirements satisfies DETAILED_CONFIG_RANGE electron_checkRequirements
     interceptorVersion featureFlags serverVersion =
     satisfies interceptorVersion ''^1.0.1''"
| "checkRequirements satisfies DETAILED_CONFIG_RANGE android_device_checkRequirements
     interceptorVersion featureFlags serverVersion =
     (satisfies (Some (case serverVersion of None \<Rightarrow> [] | Some v \<Rightarrow> v)) DETAILED_CONFIG_RANGE \<and>
      ''android'' \<in> set featureFlags)"

section \<open>getInterceptOptions\<close>

text \<open>
  The callback given to \<^verbatim>\<open>_.mapValues\<close>: one table entry \<open>option\<close> with its key \<open>id'\<close>,
  against the statuses indexed by id. \<^verbatim>\<open>serverInterceptors[id]\<close> is the lookup
  \<open>map_of serverInterceptors id'\<close>, and \<^verbatim>\<open>(serverInterceptors[id] || {}).version\<close> is the
  version of the status found, absent when none is. By the interface
  \<^verbatim>\<open>InterceptorConfig\<close> the property \<^verbatim>\<open>checkRequirements\<close> is a function or missing.
  In the last branch \<^verbatim>\<open>_.assign\<close> skips a source that is \<^verbatim>\<open>undefined\<close>.
\<close>

definition interceptOption ::
  "satisfies_fn \<Rightarrow> string \<Rightarrow> (string \<times> ServerInterceptor) list \<Rightarrow> string option \<Rightarrow>
   string list \<Rightarrow> obj \<Rightarrow> string \<Rightarrow> obj" where
  "interceptOption satisfies DETAILED_CONFIG_RANGE serverInterceptors serverVersion
     featureFlags option id' =
     (if (\<not> truthy (get option ''clientOnly'') \<and> map_of serverInterceptors id' = None) \<or>
         (case get option ''checkRequirements'' of
            JFun f \<Rightarrow>
              \<not> checkRequirements satisfies DETAILED_CONFIG_RANGE f
                  (map_option version (map_of serverInterceptors id'))
                  featureFlags serverVersion
          | _ \<Rightarrow> False)
      then assign [] [option,
             [(''id'', JStr id'),
              (''isSupported'', JBool False),
              (''isActive'', JBool False),
              (''isActivable'', JBool False)]]
      else if truthy (get option ''clientOnly'')
      then assign [] [option,
             [(''id'', JStr id'),
              (''isSupported'', JBool True),
              (''isActive'', JBool False),
              (''isActivable'', JBool True)]]
      else (case map_of serverInterceptors id' of
              Some serverInterceptor \<Rightarrow>
                assign [] [option, ServerInterceptor_fields serverInterceptor,
                  [(''id'', JStr id'), (''isSupported'', JBool True)]]
            | None \<Rightarrow>
                assign [] [option,
                  [(''id'', JStr id'), (''isSupported'', JBool True)]]))"

text \<open>
  The optional parameter \<^verbatim>\<open>serverVersion\<close> is an \<open>option\<close>; \<^verbatim>\<open>featureFlags\<close>, which
  defaults to the empty array, is passed explicitly.
\<close>

definition getInterceptOptions ::
  "satisfies_fn \<Rightarrow> string \<Rightarrow> ServerInterceptor list \<Rightarrow> string option \<Rightarrow> string list \<Rightarrow>
   (string \<times> obj) list" where
  "getInterceptOptions satisfies DETAILED_CONFIG_RANGE serverInterceptorArray serverVersion
     featureFlags =
     (let serverInterceptors = keyBy_id serverInterceptorArray
      in mapValues INTERCEPT_OPTIONS
           (interceptOption satisfies DETAILED_CONFIG_RANGE serverInterceptors serverVersion
              featureFlags))"

text \<open>
  Reading \<^verbatim>\<open>result[id].key\<close> from a returned mapping: \<open>None\<close> when the mapping has no
  entry for the id, otherwise the property of the entry (\<open>JUndefined\<close> when the entry
  lacks it).
\<close>

definition field_of :: "(string \<times> obj) list \<Rightarrow> string \<Rightarrow> string \<Rightarrow> jsval option" where
  "field_of result id' key = map_option (\<lambda>entry. get entry key) (map_of result id')"

section \<open>Run-time faults\<close>

text \<open>
  The definitions above resolve the guards of the source while translating it. The ones
  below keep the run-time faults of JavaScript as values: reading a property of
  \<^verbatim>\<open>undefined\<close> or \<^verbatim>\<open>null\<close> and calling a value that is not a function throw a
  \<^verbatim>\<open>TypeError\<close>, which ends the call of \<^verbatim>\<open>getInterceptOptions\<close>.
\<close>

datatype error = TypeError

text \<open>Property read \<^verbatim>\<open>v.key\<close> on an arbitrary value.\<close>

fun read_property :: "jsval \<Rightarrow> string \<Rightarrow> error + jsval" where
  "read_property JUndefined key = Inl TypeError"
| "read_property JNull key = Inl TypeError"
| "read_property (JObj object) key = Inr (get object key)"
| "read_property _ key = Inr JUndefined"

text \<open>\<^verbatim>\<open>a || b\<close> on values.\<close>

definition js_or :: "jsval \<Rightarrow> jsval \<Rightarrow> jsval" where
  "js_or a b = (if truthy a then a else b)"

text \<open>
  The \<^verbatim>\<open>interceptorVersion\<close> handed to a check, as the comparison receives it: a string
  or absent.
\<close>

fun version_argument :: "jsval \<Rightarrow> string option" where
  "version_argument (JStr v) = Some v"
| "version_argument _ = None"

text \<open>The call \<^verbatim>\<open>option.checkRequirements({...})\<close> on whatever the property holds.\<close>

fun call_checkRequirements ::
  "satisfies_fn \<Rightarrow> string \<Rightarrow> jsval \<Rightarrow> jsval \<Rightarrow> string list \<Rightarrow> string option \<Rightarrow>
   error + bool" where
  "call_checkRequirements satisfies DETAILED_CONFIG_RANGE (JFun f) interceptorVersion
     featureFlags serverVersion =
     Inr (checkRequirements satisfies DETAILED_CONFIG_RANGE f
            (version_argument interceptorVersion) featureFlags serverVersion)"
| "call_checkRequirements satisfies DETAILED_CONFIG_RANGE _ interceptorVersion
     featureFlags serverVersion = Inl TypeError"

text \<open>\<^verbatim>\<open>serverInterceptors[id]\<close> as a value: the status object, or \<^verbatim>\<open>undefined\<close>.\<close>

definition index_at :: "(string \<times> ServerInterceptor) list \<Rightarrow> string \<Rightarrow> jsval" where
  "index_at serverInterceptors id' =
     (case map_of serverInterceptors id' of
        None \<Rightarrow> JUndefined
      | Some s \<Rightarrow> JObj (ServerInterceptor_fields s))"

text \<open>\<^verbatim>\<open>_.assign\<close> on values: a source that is not an object contributes nothing.\<close>

definition assign_values :: "obj \<Rightarrow> jsval list \<Rightarrow> obj" where
  "assign_values object sources =
     assign object (map (\<lambda>source. case source of JObj properties \<Rightarrow> properties | _ \<Rightarrow> []) sources)"

text \<open>
  The callback again, operator by operator: the left disjunct, then the test that the
  property \<^verbatim>\<open>checkRequirements\<close> is truthy, then the read of \<^verbatim>\<open>.version\<close> from
  \<^verbatim>\<open>serverInterceptors[id] || {}\<close> and the call.
\<close>

definition interceptOption_or_throw ::
  "satisfies_fn \<Rightarrow> string \<Rightarrow> (string \<times> ServerInterceptor) list \<Rightarrow> string option \<Rightarrow>
   string list \<Rightarrow> obj \<Rightarrow> string \<Rightarrow> error + obj" where
  "interceptOption_or_throw satisfies DETAILED_CONFIG_RANGE serverInterceptors serverVersion
     featureFlags option id' =
     (case
        (if \<not> truthy (get option ''clientOnly'') \<and> \<not> truthy (index_at serverInterceptors id')
         then Inr True
         else if \<not> truthy (get option ''checkRequirements'')
         then Inr False
         else (case read_property (js_or (index_at serverInterceptors id') (JObj []))
                      ''version'' of
                 Inl e \<Rightarrow> Inl e
               | Inr interceptorVersion \<Rightarrow>
                   (case call_checkRequirements satisfies DETAILED_CONFIG_RANGE
                           (get option ''checkRequirements'') interceptorVersion
                           featureFlags serverVersion of
                      Inl e \<Rightarrow> Inl e
                    | Inr met \<Rightarrow> Inr (\<not> met))))
      of
        Inl e \<Rightarrow> Inl e
      | Inr unsupported \<Rightarrow>
          if unsupported
          then Inr (assign_values [] [JObj option,
                 JObj [(''id'', JStr id'),
                       (''isSupported'', JBool False),
                       (''isActive'', JBool False),
                       (''isActivable'', JBool False)]])
          else if truthy (get option ''clientOnly'')
          then Inr (assign_values [] [JObj option,
                 JObj [(''id'', JStr id'),
                       (''isSupported'', JBool True),
                       (''isActive'', JBool False),
                       (''isActivable'', JBool True)]])
          else Inr (assign_values [] [JObj option, index_at serverInterceptors id',
                 JObj [(''id'', JStr id'), (''isSupported'', JBool True)]]))"



section \<open>A fragment of semver.satisfies\<close>

text \<open>
  The semver package is an external dependency. To evaluate the requirement checks on
  concrete versions, \<open>semver_satisfies\<close> follows the package's documented behaviour on the
  fragment the examples use: a version is \<^verbatim>\<open>MAJOR.MINOR.PATCH\<close> with numeric identifiers
  (\<^verbatim>\<open>0\<close> or digits without a leading zero), a range is a caret range
  \<^verbatim>\<open>^MAJOR.MINOR.PATCH\<close>, which admits the versions from that one on that keep the
  left-most non-zero identifier. An absent or empty version satisfies nothing. Versions
  and ranges outside the fragment (prerelease tags, build metadata, comparator sets) are
  not covered, and \<open>semver_satisfies\<close> is \<open>False\<close> on them.
\<close>

fun digits_value :: "string \<Rightarrow> nat \<Rightarrow> nat option" where
  "digits_value [] acc = Some acc"
| "digits_value (c # cs) acc =
     (if (48::nat) \<le> of_char c \<and> of_char c \<le> (57::nat)
      then digits_value cs (10 * acc + (of_char c - 48))
      else None)"

definition numeric_identifier :: "string \<Rightarrow> nat option" where
  "numeric_identifier s =
     (case s of
        [] \<Rightarrow> None
      | c # cs \<Rightarrow> if c = CHR ''0'' \<and> cs \<noteq> [] then None else digits_value s 0)"

fun split_on :: "char \<Rightarrow> string \<Rightarrow> string list" where
  "split_on sep [] = [[]]"
| "split_on sep (c # cs) =
     (if c = sep then [] # split_on sep cs
      else (case split_on sep cs of
              [] \<Rightarrow> [[c]]
            | p # ps \<Rightarrow> (c # p) # ps))"

definition parse_version :: "string \<Rightarrow> (nat \<times> nat \<times> nat) option" where
  "parse_version s =
     (case map numeric_identifier (split_on CHR ''.'' s) of
        [Some major, Some minor, Some patch] \<Rightarrow> Some (major, minor, patch)
      | _ \<Rightarrow> None)"

fun version_le :: "nat \<times> nat \<times> nat \<Rightarrow> nat \<times> nat \<times> nat \<Rightarrow> bool" where
  "version_le (a, b, c) (x, y, z) =
     (a < x \<or> (a = x \<and> (b < y \<or> (b = y \<and> c \<le> z))))"

fun caret_same_prefix :: "nat \<times> nat \<times> nat \<Rightarrow> nat \<times> nat \<times> nat \<Rightarrow> bool" where
  "caret_same_prefix (a, b, c) (x, y, z) =
     (if a \<noteq> 0 then x = a
      else if b \<noteq> 0 then x = 0 \<and> y = b
      else x = 0 \<and> y = 0 \<and> z = c)"

definition semver_satisfies :: "string option \<Rightarrow> string \<Rightarrow> bool" where
  "semver_satisfies v range' =
     (case v of
        None \<Rightarrow> False
      | Some s \<Rightarrow>
          (case range' of
             [] \<Rightarrow> False
           | r # rs \<Rightarrow>
               (case (parse_version s, parse_version rs) of
                  (Some ver, Some base) \<Rightarrow>
                    r = CHR ''^'' \<and> version_le base ver \<and> caret_same_prefix base ver
                | _ \<Rightarrow> False)))"

section \<open>Basic facts about the object operations\<close>

lemma map_fst_mapValues: "map fst (mapValues object f) = map fst object"
  by (induction object) (auto simp: mapValues_def)

lemma map_of_mapValues:
  "map_of (mapValues object f) k = map_option (\<lambda>v. f v k) (map_of object k)"
  by (induction object) (auto simp: mapValues_def)

text \<open>
  Assigning a source overlays its properties on the target. When the source lists a
  property twice the later occurrence is the one assigned last; an object lists each
  property once.
\<close>

lemma map_of_fold_update:
  "map_of (fold (\<lambda>(key, v). AList.update key v) source target) =
   map_of target ++ map_of (rev source)"
proof (induction source arbitrary: target)
  case Nil
  show ?case by simp
next
  case (Cons p source)
  obtain k v where p: "p = (k, v)" by (cases p)
  show ?case
    by (simp add: p Cons.IH update_conv' fun_eq_iff map_add_def split: option.splits)
qed

lemma map_of_rev_distinct: "distinct (map fst xs) \<Longrightarrow> map_of (rev xs) = map_of xs"
proof (induction xs)
  case Nil
  show ?case by simp
next
  case (Cons p xs)
  obtain k v where p: "p = (k, v)" by (cases p)
  from Cons.prems have "k \<notin> fst ` set xs" and "distinct (map fst xs)" by (auto simp: p)
  then have "map_of xs k = None" and IH: "map_of (rev xs) = map_of xs"
    using Cons.IH by (auto simp: map_of_eq_None_iff)
  then show ?case
    by (auto simp: p fun_eq_iff map_add_def split: option.splits)
qed

lemma map_of_source: "distinct (map fst source) \<Longrightarrow>
  map_of (fold (\<lambda>(key, v). AList.update key v) source target) = map_of target ++ map_of source"
  by (simp add: map_of_fold_update map_of_rev_distinct)

lemma distinct_fold_update:
  "distinct (map fst target) \<Longrightarrow>
   distinct (map fst (fold (\<lambda>(key, v). AList.update key v) source target))"
  by (induction source arbitrary: target) (auto simp: distinct_update)

lemma distinct_assign:
  "distinct (map fst object) \<Longrightarrow> distinct (map fst (assign object sources))"
  unfolding assign_def
  by (induction sources arbitrary: object) (auto simp: distinct_fold_update)

lemma map_of_assign2:
  "distinct (map fst a) \<Longrightarrow> distinct (map fst b) \<Longrightarrow>
   map_of (assign [] [a, b]) = map_of a ++ map_of b"
  by (simp add: assign_def map_of_source)

lemma map_of_assign3:
  "distinct (map fst a) \<Longrightarrow> distinct (map fst b) \<Longrightarrow> distinct (map fst c) \<Longrightarrow>
   map_of (assign [] [a, b, c]) = map_of a ++ map_of b ++ map_of c"
  by (simp add: assign_def map_of_source)

lemma distinct_ServerInterceptor_fields: "distinct (map fst (ServerInterceptor_fields s))"
  by (simp add: ServerInterceptor_fields_def distinct_assign)

lemma distinct_INTERCEPT_OPTIONS: "distinct (map fst INTERCEPT_OPTIONS)"
  by (simp add: INTERCEPT_OPTIONS_def MANUAL_INTERCEPT_ID_def)

lemma distinct_option: "(i, d) \<in> set INTERCEPT_OPTIONS \<Longrightarrow> distinct (map fst d)"
  by (auto simp: INTERCEPT_OPTIONS_def)

lemma find_app:
  "find P (xs @ ys) = (case find P xs of None \<Rightarrow> find P ys | Some x \<Rightarrow> Some x)"
  by (induction xs) auto

lemma map_of_fold_keyBy:
  "map_of (fold (\<lambda>v result. AList.update (id_s v) v result) collection acc) i =
   (case find (\<lambda>s. id_s s = i) (rev collection) of Some s \<Rightarrow> Some s | None \<Rightarrow> map_of acc i)"
proof (induction collection arbitrary: acc)
  case Nil
  show ?case by simp
next
  case (Cons x xs)
  show ?case
    by (simp add: Cons.IH update_conv' find_app split: option.splits)
qed

lemma map_of_keyBy_id:
  "map_of (keyBy_id collection) i = find (\<lambda>s. id_s s = i) (rev collection)"
  by (simp add: keyBy_id_def map_of_fold_keyBy split: option.splits)

lemma keyBy_id_single: "map_of (keyBy_id [s]) (id_s s) = Some s"
  by (simp add: keyBy_id_def)

lemma keyBy_id_None: "map_of (keyBy_id collection) i = None \<longleftrightarrow> i \<notin> id_s ` set collection"
  by (auto simp: map_of_keyBy_id find_None_iff)

lemma entry_of:
  "(i, d) \<in> set INTERCEPT_OPTIONS \<Longrightarrow>
   map_of (getInterceptOptions sat R arr sv ff) i =
   Some (interceptOption sat R (keyBy_id arr) sv ff d i)"
  using distinct_INTERCEPT_OPTIONS
  by (simp add: getInterceptOptions_def map_of_mapValues)

text \<open>The three branches of the callback.\<close>

lemma requirement_fails_iff:
  "(case v of JFun f \<Rightarrow> \<not> P f | _ \<Rightarrow> False) \<longleftrightarrow> (\<exists>f. v = JFun f \<and> \<not> P f)"
  by (cases v) auto

lemma interceptOption_unsupported:
  assumes "(\<not> truthy (get d ''clientOnly'') \<and> i \<notin> id_s ` set arr) \<or>
         (\<exists>f. get d ''checkRequirements'' = JFun f \<and>
              \<not> checkRequirements sat R f (map_option version (map_of (keyBy_id arr) i)) ff sv)"
  shows "interceptOption sat R (keyBy_id arr) sv ff d i =
     assign [] [d, [(''id'', JStr i), (''isSupported'', JBool False),
                    (''isActive'', JBool False), (''isActivable'', JBool False)]]"
  using assms unfolding interceptOption_def requirement_fails_iff keyBy_id_None
  by (simp only: if_True)

lemma interceptOption_clientOnly:
  assumes "truthy (get d ''clientOnly'')"
    and "\<forall>f. get d ''checkRequirements'' = JFun f \<longrightarrow>
              checkRequirements sat R f (map_option version (map_of (keyBy_id arr) i)) ff sv"
  shows "interceptOption sat R (keyBy_id arr) sv ff d i =
     assign [] [d, [(''id'', JStr i), (''isSupported'', JBool True),
                    (''isActive'', JBool False), (''isActivable'', JBool True)]]"
proof -
  have "\<not> ((\<not> truthy (get d ''clientOnly'') \<and> i \<notin> id_s ` set arr) \<or>
         (\<exists>f. get d ''checkRequirements'' = JFun f \<and>
              \<not> checkRequirements sat R f (map_option version (map_of (keyBy_id arr) i)) ff sv))"
    using assms by blast
  then show ?thesis
    unfolding interceptOption_def requirement_fails_iff keyBy_id_None
    using assms(1) by (simp only: if_False if_True)
qed

lemma interceptOption_server:
  assumes "\<not> truthy (get d ''clientOnly'')"
    and "map_of (keyBy_id arr) i = Some s"
    and "\<forall>f. get d ''checkRequirements'' = JFun f \<longrightarrow>
              checkRequirements sat R f (Some (version s)) ff sv"
  shows "interceptOption sat R (keyBy_id arr) sv ff d i =
     assign [] [d, ServerInterceptor_fields s, [(''id'', JStr i), (''isSupported'', JBool True)]]"
proof -
  have "\<not> ((\<not> truthy (get d ''clientOnly'') \<and> map_of (keyBy_id arr) i = None) \<or>
         (\<exists>f. get d ''checkRequirements'' = JFun f \<and>
              \<not> checkRequirements sat R f (map_option version (map_of (keyBy_id arr) i)) ff sv))"
    using assms by simp
  then show ?thesis
    unfolding interceptOption_def requirement_fails_iff
    using assms(1,2) by (simp only: if_False option.case)
qed


lemma field_of_entry:
  "(i, d) \<in> set INTERCEPT_OPTIONS \<Longrightarrow>
   field_of (getInterceptOptions sat R arr sv ff) i k =
   Some (get (interceptOption sat R (keyBy_id arr) sv ff d i) k)"
  by (simp add: field_of_def entry_of)

lemma get_assign2:
  "distinct (map fst a) \<Longrightarrow> distinct (map fst b) \<Longrightarrow>
   get (assign [] [a, b]) k = (case map_of b k of Some v \<Rightarrow> v | None \<Rightarrow> get a k)"
  by (simp add: get_def map_of_assign2 map_add_def split: option.splits)

lemma get_assign3:
  "distinct (map fst a) \<Longrightarrow> distinct (map fst b) \<Longrightarrow> distinct (map fst c) \<Longrightarrow>
   get (assign [] [a, b, c]) k =
   (case map_of c k of Some v \<Rightarrow> v | None \<Rightarrow>
      (case map_of b k of Some v \<Rightarrow> v | None \<Rightarrow> get a k))"
  by (simp add: get_def map_of_assign3 map_add_def split: option.splits)

lemma map_of_ServerInterceptor_fields:
  "map_of (ServerInterceptor_fields s) =
   map_of (rev (extra s)) ++
   map_of [(''id'', JStr (id_s s)), (''version'', JStr (version s)),
           (''isActive'', JBool (isActive s)), (''isActivable'', JBool (isActivable s))]"
proof -
  have "map_of (assign [] [a, b]) = map_of (rev a) ++ map_of b" if "distinct (map fst b)"
    for a b :: obj
    using that by (simp add: assign_def map_of_fold_update map_of_rev_distinct)
  then show ?thesis
    unfolding ServerInterceptor_fields_def by simp
qed

text \<open>The two table entries that carry a requirement check.\<close>

lemma electron_mem:
  "(''electron'',
      [(''name'', JStr ''Electron Application''),
       (''description'',
          JStr ''Launch an Electron application with all its traffic intercepted''),
       (''iconProps'', JImport ''SourceIcons.Electron''),
       (''uiConfig'', JImport ''ElectronCustomUi''),
       (''checkRequirements'', JFun electron_checkRequirements),
       (''tags'', tags_value [''electron'', ''desktop'', ''postman''])])
     \<in> set INTERCEPT_OPTIONS"
  by (simp add: INTERCEPT_OPTIONS_def)

lemma android_mem:
  "(''android-device'',
      [(''name'', JStr ''An Android device''),
       (''description'',
          JStr ''Intercept all HTTP traffic from an Android device on your network''),
       (''iconProps'', JImport ''SourceIcons.Android''),
       (''checkRequirements'', JFun android_device_checkRequirements),
       (''clientOnly'', JBool True),
       (''uiConfig'', JImport ''AndroidCustomUi''),
       (''tags'', tags_value (MOBILE_TAGS @ ANDROID_TAGS))])
     \<in> set INTERCEPT_OPTIONS"
  by (simp add: INTERCEPT_OPTIONS_def)

lemma electron_fields:
  assumes "map_of (keyBy_id arr) ''electron'' = Some s"
  shows "field_of (getInterceptOptions sat R arr sv ff) ''electron'' ''isSupported'' =
           Some (JBool (sat (Some (version s)) ''^1.0.1'')) \<and>
         field_of (getInterceptOptions sat R arr sv ff) ''electron'' ''isActive'' =
           Some (JBool (sat (Some (version s)) ''^1.0.1'' \<and> isActive s)) \<and>
         field_of (getInterceptOptions sat R arr sv ff) ''electron'' ''isActivable'' =
           Some (JBool (sat (Some (version s)) ''^1.0.1'' \<and> isActivable s))"
proof -
  define d where "d = [(''name'', JStr ''Electron Application''),
       (''description'',
          JStr ''Launch an Electron application with all its traffic intercepted''),
       (''iconProps'', JImport ''SourceIcons.Electron''),
       (''uiConfig'', JImport ''ElectronCustomUi''),
       (''checkRequirements'', JFun electron_checkRequirements),
       (''tags'', tags_value [''electron'', ''desktop'', ''postman''])]"
  have mem: "(''electron'', d) \<in> set INTERCEPT_OPTIONS"
    unfolding d_def by (rule electron_mem)
  have co: "\<not> truthy (get d ''clientOnly'')"
    and cr: "get d ''checkRequirements'' = JFun electron_checkRequirements"
    by (simp_all add: d_def get_def)
  have fs: "map_of (ServerInterceptor_fields s) ''isActive'' = Some (JBool (isActive s))"
    "map_of (ServerInterceptor_fields s) ''isActivable'' = Some (JBool (isActivable s))"
    by (simp_all add: map_of_ServerInterceptor_fields)
  show ?thesis
  proof (cases "sat (Some (version s)) ''^1.0.1''")
    case True
    have "interceptOption sat R (keyBy_id arr) sv ff d ''electron'' =
      assign [] [d, ServerInterceptor_fields s,
        [(''id'', JStr ''electron''), (''isSupported'', JBool True)]]"
      by (rule interceptOption_server [OF co assms]) (simp add: cr True)
    then show ?thesis
      by (simp add: field_of_entry [OF mem] get_assign3 distinct_option [OF mem]
          distinct_ServerInterceptor_fields fs True)
  next
    case False
    have "interceptOption sat R (keyBy_id arr) sv ff d ''electron'' =
      assign [] [d, [(''id'', JStr ''electron''), (''isSupported'', JBool False),
                    (''isActive'', JBool False), (''isActivable'', JBool False)]]"
      by (rule interceptOption_unsupported) (simp add: cr assms False)
    then show ?thesis
      by (simp add: field_of_entry [OF mem] get_assign2 distinct_option [OF mem] False)
  qed
qed



text \<open>The callback reads the index only at its own key.\<close>

lemma interceptOption_cong:
  assumes "map_of si i = map_of si' i"
  shows "interceptOption sat R si sv ff d i = interceptOption sat R si' sv ff d i"
  unfolding interceptOption_def assms by (rule refl)

lemma entry_lookup:
  "map_of (getInterceptOptions sat R arr sv ff) i =
   map_option (\<lambda>d. interceptOption sat R (keyBy_id arr) sv ff d i) (map_of INTERCEPT_OPTIONS i)"
  by (simp add: getInterceptOptions_def map_of_mapValues)

text \<open>Every branch of the callback sets \<^verbatim>\<open>isSupported\<close>.\<close>

lemma interceptOption_isSupported:
  assumes "distinct (map fst d)"
  shows "get (interceptOption sat R si sv ff d i) ''isSupported'' = JBool True \<or>
         (get (interceptOption sat R si sv ff d i) ''isSupported'' = JBool False \<and>
          get (interceptOption sat R si sv ff d i) ''isActive'' = JBool False \<and>
          get (interceptOption sat R si sv ff d i) ''isActivable'' = JBool False)"
proof -
  define c where "c \<longleftrightarrow> (\<not> truthy (get d ''clientOnly'') \<and> map_of si i = None) \<or>
         (case get d ''checkRequirements'' of
            JFun f \<Rightarrow> \<not> checkRequirements sat R f (map_option version (map_of si i)) ff sv
          | _ \<Rightarrow> False)"
  have e: "interceptOption sat R si sv ff d i =
     (if c then assign [] [d,
             [(''id'', JStr i), (''isSupported'', JBool False),
              (''isActive'', JBool False), (''isActivable'', JBool False)]]
      else if truthy (get d ''clientOnly'')
      then assign [] [d,
             [(''id'', JStr i), (''isSupported'', JBool True),
              (''isActive'', JBool False), (''isActivable'', JBool True)]]
      else (case map_of si i of
              Some serverInterceptor \<Rightarrow>
                assign [] [d, ServerInterceptor_fields serverInterceptor,
                  [(''id'', JStr i), (''isSupported'', JBool True)]]
            | None \<Rightarrow> assign [] [d, [(''id'', JStr i), (''isSupported'', JBool True)]]))"
    unfolding interceptOption_def c_def by (rule refl)
  show ?thesis
    unfolding e using assms
    by (simp add: get_assign2 get_assign3 distinct_ServerInterceptor_fields split: option.splits)
qed

lemma in_mapValues:
  "(i, e) \<in> set (mapValues object f) \<Longrightarrow> \<exists>d. (i, d) \<in> set object \<and> e = f d i"
  by (auto simp: mapValues_def)

text \<open>The client-only entries of the table.\<close>

lemma clientOnly_table:
  "list_all (\<lambda>(i, d). truthy (get d ''clientOnly'') \<longrightarrow>
      (i = ''android-device'' \<or> i = ''manual-setup'') \<and>
      (get d ''checkRequirements'' = JFun android_device_checkRequirements \<or>
       get d ''checkRequirements'' = JUndefined) \<and>
      get d ''version'' = JUndefined) INTERCEPT_OPTIONS"
  by code_simp

lemma clientOnly_options:
  assumes "(i, d) \<in> set INTERCEPT_OPTIONS" and "truthy (get d ''clientOnly'')"
  shows "i \<in> {''android-device'', ''manual-setup''} \<and>
         (get d ''checkRequirements'' = JFun android_device_checkRequirements \<or>
          get d ''checkRequirements'' = JUndefined) \<and>
         get d ''version'' = JUndefined"
  using clientOnly_table assms unfolding list_all_iff by blast

lemma clientOnly_interceptOption:
  assumes "(i, d) \<in> set INTERCEPT_OPTIONS" and "truthy (get d ''clientOnly'')"
  shows "interceptOption sat R si sv ff d i = interceptOption sat R [] sv ff d i"
proof -
  have "get d ''checkRequirements'' = JFun android_device_checkRequirements \<or>
          get d ''checkRequirements'' = JUndefined"
    using clientOnly_options [OF assms] by blast
  then show ?thesis
  proof
    assume "get d ''checkRequirements'' = JFun android_device_checkRequirements"
    then show ?thesis by (simp add: interceptOption_def assms(2))
  next
    assume "get d ''checkRequirements'' = JUndefined"
    then show ?thesis by (simp add: interceptOption_def assms(2))
  qed
qed











text \<open>
  The faults are reachable where the guards of the source are missing: the unguarded
  read on a missing status, and a descriptor whose \<^verbatim>\<open>checkRequirements\<close> is not a
  function.
\<close>

lemma unguarded_read_throws: "read_property (index_at [] ''electron'') ''version'' = Inl TypeError"
  by (simp add: index_at_def)

lemma non_function_check_throws:
  "interceptOption_or_throw sat R [] sv ff
     [(''clientOnly'', JBool True), (''checkRequirements'', JBool True)] i = Inl TypeError"
  by (simp add: interceptOption_or_throw_def get_def index_at_def js_or_def)

section \<open>The key set of the result\<close>

text \<open>
  C1. For every list of server statuses, every optional server version and every list of
  feature flags, the keys of the mapping returned by \<open>getInterceptOptions\<close> are the keys
  of \<open>INTERCEPT_OPTIONS\<close>, in the same order: an id reported by the server that the table
  does not hold never appears, and every id of the table does.
\<close>

theorem getInterceptOptions_keys:
  "map fst (getInterceptOptions satisfies DETAILED_CONFIG_RANGE serverInterceptorArray
      serverVersion featureFlags) = map fst INTERCEPT_OPTIONS"
  by (simp add: getInterceptOptions_def map_fst_mapValues)

text \<open>A server list whose only status has an id the table does not hold.\<close>

theorem getInterceptOptions_keys_witness:
  "map fst (getInterceptOptions semver_satisfies ''^0.1.20''
      [\<lparr>id_s = ''not-in-the-table'', version = ''1.0.0'', isActive = True,
        isActivable = True, extra = []\<rparr>] None []) = map fst INTERCEPT_OPTIONS \<and>
   ''not-in-the-table'' \<notin> set (map fst INTERCEPT_OPTIONS)"
  using getInterceptOptions_keys [of semver_satisfies "''^0.1.20''"
      "[\<lparr>id_s = ''not-in-the-table'', version = ''1.0.0'', isActive = True,
        isActivable = True, extra = []\<rparr>]" None "[]"]
  by (simp add: INTERCEPT_OPTIONS_def MANUAL_INTERCEPT_ID_def)

section \<open>The three cases of an entry\<close>

text \<open>
  C2. Let \<open>d\<close> be the descriptor of the table under id \<open>i\<close>. If \<open>d\<close> is not client-only
  and no server status has id \<open>i\<close>, or if \<open>d\<close> has a requirement check and the check is
  false on the version of the matching status (absent when there is none), the feature
  flags and the server version, then the entry of the result under \<open>i\<close> is the descriptor's
  fields overlaid with exactly \<^verbatim>\<open>id: i\<close>, \<^verbatim>\<open>isSupported: false\<close>, \<^verbatim>\<open>isActive: false\<close>,
  \<^verbatim>\<open>isActivable: false\<close>. In particular a descriptor that is not client-only and has no
  requirement check is unsupported, inactive and not activable when the server list is
  empty.
\<close>

theorem unsupported_entry:
  assumes "(i, d) \<in> set INTERCEPT_OPTIONS"
  shows "((\<not> truthy (get d ''clientOnly'') \<and> i \<notin> id_s ` set arr) \<or>
          (\<exists>f. get d ''checkRequirements'' = JFun f \<and>
               \<not> checkRequirements sat R f
                   (map_option version (map_of (keyBy_id arr) i)) ff sv) \<longrightarrow>
          map_option map_of (map_of (getInterceptOptions sat R arr sv ff) i) =
          Some (map_of d ++ map_of [(''id'', JStr i), (''isSupported'', JBool False),
                  (''isActive'', JBool False), (''isActivable'', JBool False)])) \<and>
         (\<not> truthy (get d ''clientOnly'') \<and> get d ''checkRequirements'' = JUndefined \<longrightarrow>
          field_of (getInterceptOptions sat R [] sv ff) i ''isSupported'' = Some (JBool False) \<and>
          field_of (getInterceptOptions sat R [] sv ff) i ''isActive'' = Some (JBool False) \<and>
          field_of (getInterceptOptions sat R [] sv ff) i ''isActivable'' = Some (JBool False))"
proof (intro conjI impI)
  assume c: "(\<not> truthy (get d ''clientOnly'') \<and> i \<notin> id_s ` set arr) \<or>
          (\<exists>f. get d ''checkRequirements'' = JFun f \<and>
               \<not> checkRequirements sat R f
                   (map_option version (map_of (keyBy_id arr) i)) ff sv)"
  show "map_option map_of (map_of (getInterceptOptions sat R arr sv ff) i) =
          Some (map_of d ++ map_of [(''id'', JStr i), (''isSupported'', JBool False),
                  (''isActive'', JBool False), (''isActivable'', JBool False)])"
    using assms c
    by (simp only: entry_of interceptOption_unsupported option.map)
       (simp add: map_of_assign2 distinct_option)
next
  assume "\<not> truthy (get d ''clientOnly'') \<and> get d ''checkRequirements'' = JUndefined"
  then have c: "(\<not> truthy (get d ''clientOnly'') \<and> i \<notin> id_s ` set []) \<or>
          (\<exists>f. get d ''checkRequirements'' = JFun f \<and>
               \<not> checkRequirements sat R f
                   (map_option version (map_of (keyBy_id []) i)) ff sv)"
    by simp
  have e: "interceptOption sat R (keyBy_id []) sv ff d i =
     assign [] [d, [(''id'', JStr i), (''isSupported'', JBool False),
                    (''isActive'', JBool False), (''isActivable'', JBool False)]]"
    by (rule interceptOption_unsupported [OF c])
  show "field_of (getInterceptOptions sat R [] sv ff) i ''isSupported'' = Some (JBool False)"
    using assms by (simp add: field_of_entry e get_assign2 distinct_option)
  show "field_of (getInterceptOptions sat R [] sv ff) i ''isActive'' = Some (JBool False)"
    using assms by (simp add: field_of_entry e get_assign2 distinct_option)
  show "field_of (getInterceptOptions sat R [] sv ff) i ''isActivable'' = Some (JBool False)"
    using assms by (simp add: field_of_entry e get_assign2 distinct_option)
qed

text \<open>
  A server that reports only \<^verbatim>\<open>electron\<close>, at version 1.0.0: \<^verbatim>\<open>docker-all\<close> has no
  status, \<^verbatim>\<open>electron\<close> fails its requirement check.
\<close>

theorem unsupported_entry_witness:
  "(let result = getInterceptOptions semver_satisfies ''^0.1.20''
      [\<lparr>id_s = ''electron'', version = ''1.0.0'', isActive = True, isActivable = True,
        extra = []\<rparr>] None []
    in field_of result ''docker-all'' ''name'' = Some (JStr ''All Docker Containers'') \<and>
       field_of result ''docker-all'' ''id'' = Some (JStr ''docker-all'') \<and>
       field_of result ''docker-all'' ''isSupported'' = Some (JBool False) \<and>
       field_of result ''docker-all'' ''isActive'' = Some (JBool False) \<and>
       field_of result ''docker-all'' ''isActivable'' = Some (JBool False) \<and>
       field_of result ''electron'' ''isSupported'' = Some (JBool False) \<and>
       field_of result ''electron'' ''isActive'' = Some (JBool False) \<and>
       field_of result ''electron'' ''isActivable'' = Some (JBool False) \<and>
       field_of result ''electron'' ''version'' = Some JUndefined)"
  using unsupported_entry [of "''docker-all''"
      "[(''name'', JStr ''All Docker Containers''),
       (''description'', JStr ''Intercept all local Docker traffic''),
       (''iconProps'', JImport ''SourceIcons.Docker''),
       (''tags'', tags_value DOCKER_TAGS)]"
      "[\<lparr>id_s = ''electron'', version = ''1.0.0'', isActive = True, isActivable = True,
        extra = []\<rparr>]" semver_satisfies "''^0.1.20''" "[]" None]
    unsupported_entry [of "''electron''"
      "[(''name'', JStr ''Electron Application''),
       (''description'',
          JStr ''Launch an Electron application with all its traffic intercepted''),
       (''iconProps'', JImport ''SourceIcons.Electron''),
       (''uiConfig'', JImport ''ElectronCustomUi''),
       (''checkRequirements'', JFun electron_checkRequirements),
       (''tags'', tags_value [''electron'', ''desktop'', ''postman''])]"
      "[\<lparr>id_s = ''electron'', version = ''1.0.0'', isActive = True, isActivable = True,
        extra = []\<rparr>]" semver_satisfies "''^0.1.20''" "[]" None]
  by (auto simp: field_of_def INTERCEPT_OPTIONS_def get_def keyBy_id_def semver_satisfies_def
      parse_version_def numeric_identifier_def)

text \<open>
  C3. Let \<open>d\<close> be a client-only descriptor of the table under id \<open>i\<close>. If its requirement
  check, when it has one, passes, then for every server input the entry under \<open>i\<close> is the
  descriptor's fields overlaid with exactly \<^verbatim>\<open>id: i\<close>, \<^verbatim>\<open>isSupported: true\<close>,
  \<^verbatim>\<open>isActive: false\<close>, \<^verbatim>\<open>isActivable: true\<close>. In particular a client-only descriptor
  without a requirement check gets this entry from the empty server list and from any
  other.
\<close>

theorem clientOnly_entry:
  assumes "(i, d) \<in> set INTERCEPT_OPTIONS" and "truthy (get d ''clientOnly'')"
  shows "((\<forall>f. get d ''checkRequirements'' = JFun f \<longrightarrow>
               checkRequirements sat R f
                 (map_option version (map_of (keyBy_id arr) i)) ff sv) \<longrightarrow>
          map_option map_of (map_of (getInterceptOptions sat R arr sv ff) i) =
          Some (map_of d ++ map_of [(''id'', JStr i), (''isSupported'', JBool True),
                  (''isActive'', JBool False), (''isActivable'', JBool True)])) \<and>
         (get d ''checkRequirements'' = JUndefined \<longrightarrow>
          map_option map_of (map_of (getInterceptOptions sat R [] sv ff) i) =
          Some (map_of d ++ map_of [(''id'', JStr i), (''isSupported'', JBool True),
                  (''isActive'', JBool False), (''isActivable'', JBool True)]) \<and>
          map_option map_of (map_of (getInterceptOptions sat R arr sv ff) i) =
          Some (map_of d ++ map_of [(''id'', JStr i), (''isSupported'', JBool True),
                  (''isActive'', JBool False), (''isActivable'', JBool True)]))"
proof -
  have general: "map_option map_of (map_of (getInterceptOptions sat R xs sv ff) i) =
          Some (map_of d ++ map_of [(''id'', JStr i), (''isSupported'', JBool True),
                  (''isActive'', JBool False), (''isActivable'', JBool True)])"
    if "\<forall>f. get d ''checkRequirements'' = JFun f \<longrightarrow>
               checkRequirements sat R f
                 (map_option version (map_of (keyBy_id xs) i)) ff sv" for xs
    using assms that
    by (simp only: entry_of interceptOption_clientOnly option.map)
       (simp add: map_of_assign2 distinct_option)
  show ?thesis
    by (intro conjI impI general) simp_all
qed

text \<open>
  A server that reports \<^verbatim>\<open>manual-setup\<close> as active, with the flag \<^verbatim>\<open>android\<close> and a
  server version inside the range: both client-only entries are supported and inactive.
\<close>

theorem clientOnly_entry_witness:
  "(let result = getInterceptOptions semver_satisfies ''^0.1.20''
      [\<lparr>id_s = ''manual-setup'', version = ''1.0.0'', isActive = True, isActivable = True,
        extra = []\<rparr>] (Some ''0.1.25'') [''android'']
    in field_of result ''manual-setup'' ''name'' = Some (JStr ''Anything'') \<and>
       field_of result ''manual-setup'' ''id'' = Some (JStr ''manual-setup'') \<and>
       field_of result ''manual-setup'' ''isSupported'' = Some (JBool True) \<and>
       field_of result ''manual-setup'' ''isActive'' = Some (JBool False) \<and>
       field_of result ''manual-setup'' ''isActivable'' = Some (JBool True) \<and>
       field_of result ''manual-setup'' ''version'' = Some JUndefined \<and>
       field_of result ''android-device'' ''isSupported'' = Some (JBool True) \<and>
       field_of result ''android-device'' ''isActive'' = Some (JBool False) \<and>
       field_of result ''android-device'' ''isActivable'' = Some (JBool True))"
  using clientOnly_entry [of "''manual-setup''"
      "[(''name'', JStr ''Anything''),
       (''description'',
          JStr ''Manually configure any source using the proxy settings and CA certificate''),
       (''iconProps'', JImport ''SourceIcons.Unknown''),
       (''clientOnly'', JBool True),
       (''uiConfig'', JImport ''ManualInterceptCustomUi''),
       (''tags'', tags_value [])]" semver_satisfies "''^0.1.20''"
      "[\<lparr>id_s = ''manual-setup'', version = ''1.0.0'', isActive = True, isActivable = True,
          extra = []\<rparr>]" "[''android'']" "Some ''0.1.25''"]
    clientOnly_entry [of "''android-device''"
      "[(''name'', JStr ''An Android device''),
       (''description'',
          JStr ''Intercept all HTTP traffic from an Android device on your network''),
       (''iconProps'', JImport ''SourceIcons.Android''),
       (''checkRequirements'', JFun android_device_checkRequirements),
       (''clientOnly'', JBool True),
       (''uiConfig'', JImport ''AndroidCustomUi''),
       (''tags'', tags_value (MOBILE_TAGS @ ANDROID_TAGS))]" semver_satisfies "''^0.1.20''"
      "[\<lparr>id_s = ''manual-setup'', version = ''1.0.0'', isActive = True, isActivable = True,
          extra = []\<rparr>]" "[''android'']" "Some ''0.1.25''"]
  by (auto simp: field_of_def INTERCEPT_OPTIONS_def MANUAL_INTERCEPT_ID_def get_def
      keyBy_id_def semver_satisfies_def parse_version_def numeric_identifier_def)

text \<open>
  C4. Let \<open>d\<close> be a descriptor of the table under id \<open>i\<close> that is not client-only, let \<open>s\<close>
  be the server status indexed under \<open>i\<close>, and let the requirement check of \<open>d\<close>, when it
  has one, pass on the version of \<open>s\<close>. Then the entry under \<open>i\<close> is an overlay where the
  later layer wins: the descriptor's fields, then all fields of \<open>s\<close> (its additional
  fields and \<^verbatim>\<open>id\<close>, \<^verbatim>\<open>version\<close>, \<^verbatim>\<open>isActive\<close>, \<^verbatim>\<open>isActivable\<close>), then \<^verbatim>\<open>id: i\<close> and
  \<^verbatim>\<open>isSupported: true\<close>. In particular the status
  \<^verbatim>\<open>{id: 'docker-all', version: 'x', isActive: true, isActivable: true}\<close> gives the entry
  \<^verbatim>\<open>docker-all\<close> the values \<^verbatim>\<open>isSupported: true\<close>, \<^verbatim>\<open>isActive: true\<close>, \<^verbatim>\<open>isActivable: true\<close>.
\<close>

theorem server_backed_entry:
  "((i, d) \<in> set INTERCEPT_OPTIONS \<and> \<not> truthy (get d ''clientOnly'') \<and>
    map_of (keyBy_id arr) i = Some s \<and>
    (\<forall>f. get d ''checkRequirements'' = JFun f \<longrightarrow>
         checkRequirements sat R f (Some (version s)) ff sv) \<longrightarrow>
    map_option map_of (map_of (getInterceptOptions sat R arr sv ff) i) =
      Some (map_of d ++ map_of (ServerInterceptor_fields s) ++
            map_of [(''id'', JStr i), (''isSupported'', JBool True)]) \<and>
    map_of (ServerInterceptor_fields s) =
      map_of (rev (extra s)) ++
      map_of [(''id'', JStr (id_s s)), (''version'', JStr (version s)),
              (''isActive'', JBool (isActive s)), (''isActivable'', JBool (isActivable s))]) \<and>
   field_of (getInterceptOptions sat R
      [\<lparr>id_s = ''docker-all'', version = ''x'', isActive = True, isActivable = True,
        extra = []\<rparr>] sv ff) ''docker-all'' ''isSupported'' = Some (JBool True) \<and>
   field_of (getInterceptOptions sat R
      [\<lparr>id_s = ''docker-all'', version = ''x'', isActive = True, isActivable = True,
        extra = []\<rparr>] sv ff) ''docker-all'' ''isActive'' = Some (JBool True) \<and>
   field_of (getInterceptOptions sat R
      [\<lparr>id_s = ''docker-all'', version = ''x'', isActive = True, isActivable = True,
        extra = []\<rparr>] sv ff) ''docker-all'' ''isActivable'' = Some (JBool True)"
proof -
  have general: "map_option map_of (map_of (getInterceptOptions sat R arr sv ff) i) =
      Some (map_of d ++ map_of (ServerInterceptor_fields s) ++
            map_of [(''id'', JStr i), (''isSupported'', JBool True)])"
    if "(i, d) \<in> set INTERCEPT_OPTIONS" "\<not> truthy (get d ''clientOnly'')"
      "map_of (keyBy_id arr) i = Some s"
      "\<forall>f. get d ''checkRequirements'' = JFun f \<longrightarrow>
         checkRequirements sat R f (Some (version s)) ff sv"
    using that
    by (simp only: entry_of interceptOption_server [OF that(2,3,4)] option.map)
       (simp add: map_of_assign3 distinct_option distinct_ServerInterceptor_fields)
  define docker where "docker = \<lparr>id_s = ''docker-all'', version = ''x'', isActive = True,
    isActivable = True, extra = []\<rparr>"
  define d0 where "d0 = [(''name'', JStr ''All Docker Containers''),
       (''description'', JStr ''Intercept all local Docker traffic''),
       (''iconProps'', JImport ''SourceIcons.Docker''),
       (''tags'', tags_value DOCKER_TAGS)]"
  have mem: "(''docker-all'', d0) \<in> set INTERCEPT_OPTIONS"
    by (simp add: INTERCEPT_OPTIONS_def d0_def)
  have look: "map_of (keyBy_id [docker]) ''docker-all'' = Some docker"
    by (simp add: keyBy_id_def docker_def)
  have e: "interceptOption sat R (keyBy_id [docker]) sv ff d0 ''docker-all'' =
     assign [] [d0, ServerInterceptor_fields docker,
       [(''id'', JStr ''docker-all''), (''isSupported'', JBool True)]]"
    by (rule interceptOption_server [OF _ look]) (simp_all add: d0_def get_def)
  have f: "map_of (ServerInterceptor_fields docker) ''isActive'' = Some (JBool True)"
    "map_of (ServerInterceptor_fields docker) ''isActivable'' = Some (JBool True)"
    by (simp_all add: map_of_ServerInterceptor_fields docker_def)
  have "field_of (getInterceptOptions sat R [docker] sv ff) ''docker-all'' ''isSupported'' =
      Some (JBool True)"
    "field_of (getInterceptOptions sat R [docker] sv ff) ''docker-all'' ''isActive'' =
      Some (JBool True)"
    "field_of (getInterceptOptions sat R [docker] sv ff) ''docker-all'' ''isActivable'' =
      Some (JBool True)"
    by (simp_all add: field_of_entry [OF mem] e get_assign3 distinct_option [OF mem]
        distinct_ServerInterceptor_fields f)
  then show ?thesis
    using general map_of_ServerInterceptor_fields unfolding docker_def by blast
qed

text \<open>
  An \<^verbatim>\<open>electron\<close> status of version 1.0.2 with additional fields \<^verbatim>\<open>name\<close> and
  \<^verbatim>\<open>isSupported\<close>: the server's \<^verbatim>\<open>name\<close> replaces the descriptor's, the forced
  \<^verbatim>\<open>isSupported\<close> replaces the server's.
\<close>

theorem server_backed_entry_witness:
  "(let result = getInterceptOptions semver_satisfies ''^0.1.20''
      [\<lparr>id_s = ''electron'', version = ''1.0.2'', isActive = False, isActivable = True,
        extra = [(''name'', JStr ''Renamed''), (''isSupported'', JBool False)]\<rparr>] None []
    in field_of result ''electron'' ''name'' = Some (JStr ''Renamed'') \<and>
       field_of result ''electron'' ''uiConfig'' = Some (JImport ''ElectronCustomUi'') \<and>
       field_of result ''electron'' ''version'' = Some (JStr ''1.0.2'') \<and>
       field_of result ''electron'' ''isActive'' = Some (JBool False) \<and>
       field_of result ''electron'' ''isActivable'' = Some (JBool True) \<and>
       field_of result ''electron'' ''id'' = Some (JStr ''electron'') \<and>
       field_of result ''electron'' ''isSupported'' = Some (JBool True))"
  using server_backed_entry [of "''electron''"
      "[(''name'', JStr ''Electron Application''),
       (''description'',
          JStr ''Launch an Electron application with all its traffic intercepted''),
       (''iconProps'', JImport ''SourceIcons.Electron''),
       (''uiConfig'', JImport ''ElectronCustomUi''),
       (''checkRequirements'', JFun electron_checkRequirements),
       (''tags'', tags_value [''electron'', ''desktop'', ''postman''])]"
      "[\<lparr>id_s = ''electron'', version = ''1.0.2'', isActive = False, isActivable = True,
       extra = [(''name'', JStr ''Renamed''), (''isSupported'', JBool False)]\<rparr>]"
      "\<lparr>id_s = ''electron'', version = ''1.0.2'', isActive = False, isActivable = True,
       extra = [(''name'', JStr ''Renamed''), (''isSupported'', JBool False)]\<rparr>"
      semver_satisfies "''^0.1.20''" "[]" None]
  by (auto simp: field_of_def INTERCEPT_OPTIONS_def get_def keyBy_id_def semver_satisfies_def
      parse_version_def numeric_identifier_def)

section \<open>The requirement checks of the table\<close>

text \<open>
  C5. The requirement of the \<^verbatim>\<open>electron\<close> descriptor is that the version of the matching
  server status satisfies the range \<^verbatim>\<open>^1.0.1\<close>: for a single \<^verbatim>\<open>electron\<close> status the
  entry's \<^verbatim>\<open>isSupported\<close> is the answer of \<^verbatim>\<open>semver.satisfies\<close> on that version and that
  range, whatever function \<open>sat\<close> stands for it. With the caret semantics of
  \<open>semver_satisfies\<close>, version 1.0.0 gives \<^verbatim>\<open>isSupported: false\<close> and version 1.0.2 gives
  \<^verbatim>\<open>isSupported: true\<close> with the \<^verbatim>\<open>isActive\<close> and \<^verbatim>\<open>isActivable\<close> of the status.
\<close>

theorem electron_version_requirement:
  "field_of (getInterceptOptions sat R
      [\<lparr>id_s = ''electron'', version = v, isActive = a, isActivable = b, extra = x\<rparr>]
      sv ff) ''electron'' ''isSupported'' = Some (JBool (sat (Some v) ''^1.0.1'')) \<and>
   field_of (getInterceptOptions semver_satisfies R
      [\<lparr>id_s = ''electron'', version = ''1.0.0'', isActive = a, isActivable = b, extra = x\<rparr>]
      sv ff) ''electron'' ''isSupported'' = Some (JBool False) \<and>
   field_of (getInterceptOptions semver_satisfies R
      [\<lparr>id_s = ''electron'', version = ''1.0.2'', isActive = a, isActivable = b, extra = x\<rparr>]
      sv ff) ''electron'' ''isSupported'' = Some (JBool True) \<and>
   field_of (getInterceptOptions semver_satisfies R
      [\<lparr>id_s = ''electron'', version = ''1.0.2'', isActive = a, isActivable = b, extra = x\<rparr>]
      sv ff) ''electron'' ''isActive'' = Some (JBool a) \<and>
   field_of (getInterceptOptions semver_satisfies R
      [\<lparr>id_s = ''electron'', version = ''1.0.2'', isActive = a, isActivable = b, extra = x\<rparr>]
      sv ff) ''electron'' ''isActivable'' = Some (JBool b)"
proof -
  have old: "\<not> semver_satisfies (Some ''1.0.0'') ''^1.0.1''"
    by (simp add: semver_satisfies_def parse_version_def numeric_identifier_def)
  have new: "semver_satisfies (Some ''1.0.2'') ''^1.0.1''"
    by (simp add: semver_satisfies_def parse_version_def numeric_identifier_def)
  have look: "map_of (keyBy_id
      [\<lparr>id_s = ''electron'', version = w, isActive = a, isActivable = b, extra = x\<rparr>])
      ''electron'' =
      Some \<lparr>id_s = ''electron'', version = w, isActive = a, isActivable = b, extra = x\<rparr>"
    for w
    using keyBy_id_single
      [of "\<lparr>id_s = ''electron'', version = w, isActive = a, isActivable = b, extra = x\<rparr>"]
    by simp
  show ?thesis
    using electron_fields [OF look [of v], where sat = sat and R = R and sv = sv and ff = ff]
      electron_fields [OF look [of "''1.0.0''"], where sat = semver_satisfies and R = R
        and sv = sv and ff = ff]
      electron_fields [OF look [of "''1.0.2''"], where sat = semver_satisfies and R = R
        and sv = sv and ff = ff]
    by (simp add: old new)
qed

text \<open>Both versions with an active, activable status.\<close>

theorem electron_version_requirement_witness:
  "field_of (getInterceptOptions semver_satisfies ''^0.1.20''
      [\<lparr>id_s = ''electron'', version = ''1.0.0'', isActive = True, isActivable = True,
        extra = []\<rparr>] (Some ''0.1.25'') []) ''electron'' ''isSupported'' = Some (JBool False) \<and>
   field_of (getInterceptOptions semver_satisfies ''^0.1.20''
      [\<lparr>id_s = ''electron'', version = ''1.0.2'', isActive = True, isActivable = True,
        extra = []\<rparr>] (Some ''0.1.25'') []) ''electron'' ''isSupported'' = Some (JBool True) \<and>
   field_of (getInterceptOptions semver_satisfies ''^0.1.20''
      [\<lparr>id_s = ''electron'', version = ''1.0.2'', isActive = True, isActivable = True,
        extra = []\<rparr>] (Some ''0.1.25'') []) ''electron'' ''isActive'' = Some (JBool True)"
  using electron_version_requirement
    [of semver_satisfies "''^0.1.20''" "''1.0.0''" True True "[]" "Some ''0.1.25''" "[]"]
  by (simp add: semver_satisfies_def parse_version_def numeric_identifier_def)

text \<open>
  C6. Whenever \<^verbatim>\<open>'android'\<close> is not among the feature flags, the entry \<^verbatim>\<open>android-device\<close>
  has \<^verbatim>\<open>isSupported: false\<close>, \<^verbatim>\<open>isActive: false\<close> and \<^verbatim>\<open>isActivable: false\<close>, for every
  list of server statuses (also one with a status of that id) and every server version.
\<close>

theorem android_requires_feature_flag:
  assumes "''android'' \<notin> set ff"
  shows "field_of (getInterceptOptions sat R arr sv ff) ''android-device'' ''isSupported'' =
           Some (JBool False) \<and>
         field_of (getInterceptOptions sat R arr sv ff) ''android-device'' ''isActive'' =
           Some (JBool False) \<and>
         field_of (getInterceptOptions sat R arr sv ff) ''android-device'' ''isActivable'' =
           Some (JBool False)"
proof -
  define d where "d = [(''name'', JStr ''An Android device''),
       (''description'',
          JStr ''Intercept all HTTP traffic from an Android device on your network''),
       (''iconProps'', JImport ''SourceIcons.Android''),
       (''checkRequirements'', JFun android_device_checkRequirements),
       (''clientOnly'', JBool True),
       (''uiConfig'', JImport ''AndroidCustomUi''),
       (''tags'', tags_value (MOBILE_TAGS @ ANDROID_TAGS))]"
  have mem: "(''android-device'', d) \<in> set INTERCEPT_OPTIONS"
    unfolding d_def by (rule android_mem)
  have cr: "get d ''checkRequirements'' = JFun android_device_checkRequirements"
    by (simp add: d_def get_def)
  have "interceptOption sat R (keyBy_id arr) sv ff d ''android-device'' =
      assign [] [d, [(''id'', JStr ''android-device''), (''isSupported'', JBool False),
                    (''isActive'', JBool False), (''isActivable'', JBool False)]]"
    by (rule interceptOption_unsupported) (simp add: cr assms)
  then show ?thesis
    by (simp add: field_of_entry [OF mem] get_assign2 distinct_option [OF mem])
qed

text \<open>
  A server that reports \<^verbatim>\<open>android-device\<close> as active, a server version inside the range,
  and a flag list without \<^verbatim>\<open>android\<close>.
\<close>

theorem android_requires_feature_flag_witness:
  "''android'' \<notin> set [''ios''] \<and>
   semver_satisfies (Some ''0.1.25'') ''^0.1.20'' \<and>
   field_of (getInterceptOptions semver_satisfies ''^0.1.20''
      [\<lparr>id_s = ''android-device'', version = ''1.0.0'', isActive = True, isActivable = True,
        extra = []\<rparr>] (Some ''0.1.25'') [''ios'']) ''android-device'' ''isSupported'' =
     Some (JBool False) \<and>
   field_of (getInterceptOptions semver_satisfies ''^0.1.20''
      [\<lparr>id_s = ''android-device'', version = ''1.0.0'', isActive = True, isActivable = True,
        extra = []\<rparr>] (Some ''0.1.25'') [''ios'']) ''android-device'' ''isActive'' =
     Some (JBool False)"
  using android_requires_feature_flag [of "[''ios'']" semver_satisfies "''^0.1.20''"
      "[\<lparr>id_s = ''android-device'', version = ''1.0.0'', isActive = True, isActivable = True,
        extra = []\<rparr>]" "Some ''0.1.25''"]
  by (simp add: semver_satisfies_def parse_version_def numeric_identifier_def)

section \<open>Missing server data\<close>




section \<open>Duplicate server ids\<close>

text \<open>
  C8. When several statuses of the input carry the same id, the index built by
  \<^verbatim>\<open>_.keyBy\<close> holds the last of them: if no status after \<open>s\<close> has the id of \<open>s\<close>, the
  index maps that id to \<open>s\<close>, and the entry of the result under that id is the one the
  input \<open>[s]\<close> gives.
\<close>

theorem keyBy_last_wins:
  assumes "\<forall>y\<in>set ys. id_s y \<noteq> id_s s"
  shows "map_of (keyBy_id (xs @ s # ys)) (id_s s) = Some s \<and>
         map_of (getInterceptOptions sat R (xs @ s # ys) sv ff) (id_s s) =
         map_of (getInterceptOptions sat R [s] sv ff) (id_s s)"
proof -
  have "find (\<lambda>y. id_s y = id_s s) (rev ys) = None"
    using assms by (simp add: find_None_iff)
  then have last: "map_of (keyBy_id (xs @ s # ys)) (id_s s) = Some s"
    by (simp add: map_of_keyBy_id find_app)
  then have "map_of (keyBy_id (xs @ s # ys)) (id_s s) = map_of (keyBy_id [s]) (id_s s)"
    by (simp add: keyBy_id_single)
  then have "interceptOption sat R (keyBy_id (xs @ s # ys)) sv ff d (id_s s) =
      interceptOption sat R (keyBy_id [s]) sv ff d (id_s s)" for d
    by (rule interceptOption_cong)
  then show ?thesis
    using last by (simp add: entry_lookup)
qed

text \<open>Two \<^verbatim>\<open>docker-all\<close> statuses followed by another id: the second one counts.\<close>

theorem keyBy_last_wins_witness:
  "id_s \<lparr>id_s = ''fresh-chrome'', version = ''1.0.0'', isActive = True,
        isActivable = True, extra = []\<rparr> \<noteq> ''docker-all'' \<and>
   field_of (getInterceptOptions semver_satisfies ''^0.1.20''
     [\<lparr>id_s = ''docker-all'', version = ''1.0.0'', isActive = False, isActivable = False,
        extra = []\<rparr>,
      \<lparr>id_s = ''docker-all'', version = ''2.0.0'', isActive = True, isActivable = True,
        extra = []\<rparr>,
      \<lparr>id_s = ''fresh-chrome'', version = ''1.0.0'', isActive = True, isActivable = True,
        extra = []\<rparr>] None []) ''docker-all'' ''version'' = Some (JStr ''2.0.0'') \<and>
   field_of (getInterceptOptions semver_satisfies ''^0.1.20''
     [\<lparr>id_s = ''docker-all'', version = ''1.0.0'', isActive = False, isActivable = False,
        extra = []\<rparr>,
      \<lparr>id_s = ''docker-all'', version = ''2.0.0'', isActive = True, isActivable = True,
        extra = []\<rparr>,
      \<lparr>id_s = ''fresh-chrome'', version = ''1.0.0'', isActive = True, isActivable = True,
        extra = []\<rparr>] None []) ''docker-all'' ''isActive'' = Some (JBool True)"
proof -
  have one: "field_of (getInterceptOptions semver_satisfies ''^0.1.20''
     [\<lparr>id_s = ''docker-all'', version = ''2.0.0'', isActive = True, isActivable = True,
        extra = []\<rparr>] None []) ''docker-all'' ''version'' = Some (JStr ''2.0.0'') \<and>
     field_of (getInterceptOptions semver_satisfies ''^0.1.20''
     [\<lparr>id_s = ''docker-all'', version = ''2.0.0'', isActive = True, isActivable = True,
        extra = []\<rparr>] None []) ''docker-all'' ''isActive'' = Some (JBool True)"
    by code_simp
  show ?thesis
    using keyBy_last_wins [of
      "[\<lparr>id_s = ''fresh-chrome'', version = ''1.0.0'', isActive = True, isActivable = True,
        extra = []\<rparr>]"
      "\<lparr>id_s = ''docker-all'', version = ''2.0.0'', isActive = True, isActivable = True,
        extra = []\<rparr>"
      "[\<lparr>id_s = ''docker-all'', version = ''1.0.0'', isActive = False, isActivable = False,
        extra = []\<rparr>]" semver_satisfies "''^0.1.20''" None "[]"] one
    by (simp add: field_of_def)
qed

section \<open>Invariants of the result\<close>

text \<open>
  C9. For every input and every entry of the result: if the entry's \<^verbatim>\<open>isSupported\<close> is
  \<^verbatim>\<open>false\<close> then its \<^verbatim>\<open>isActive\<close> is \<^verbatim>\<open>false\<close> and its \<^verbatim>\<open>isActivable\<close> is \<^verbatim>\<open>false\<close>.
\<close>

theorem unsupported_never_active:
  "\<forall>(i, e) \<in> set (getInterceptOptions sat R arr sv ff).
     get e ''isSupported'' = JBool False \<longrightarrow>
     get e ''isActive'' = JBool False \<and> get e ''isActivable'' = JBool False"
proof (clarify)
  fix i e
  assume "(i, e) \<in> set (getInterceptOptions sat R arr sv ff)"
    and f: "get e ''isSupported'' = JBool False"
  then obtain d where d: "(i, d) \<in> set INTERCEPT_OPTIONS"
    and e: "e = interceptOption sat R (keyBy_id arr) sv ff d i"
    unfolding getInterceptOptions_def Let_def by (blast dest: in_mapValues)
  show "get e ''isActive'' = JBool False \<and> get e ''isActivable'' = JBool False"
    using interceptOption_isSupported [OF distinct_option [OF d], of sat R "keyBy_id arr" sv ff i] f
    unfolding e by simp
qed

text \<open>The entry \<^verbatim>\<open>docker-all\<close> of the result for an empty server list.\<close>

theorem unsupported_never_active_witness:
  "(''docker-all'',
      [(''name'', JStr ''All Docker Containers''),
       (''description'', JStr ''Intercept all local Docker traffic''),
       (''iconProps'', JImport ''SourceIcons.Docker''),
       (''tags'', tags_value DOCKER_TAGS),
       (''id'', JStr ''docker-all''),
       (''isSupported'', JBool False),
       (''isActive'', JBool False),
       (''isActivable'', JBool False)])
     \<in> set (getInterceptOptions semver_satisfies ''^0.1.20'' [] None []) \<and>
   get [(''name'', JStr ''All Docker Containers''),
       (''description'', JStr ''Intercept all local Docker traffic''),
       (''iconProps'', JImport ''SourceIcons.Docker''),
       (''tags'', tags_value DOCKER_TAGS),
       (''id'', JStr ''docker-all''),
       (''isSupported'', JBool False),
       (''isActive'', JBool False),
       (''isActivable'', JBool False)] ''isActive'' = JBool False"
proof -
  have mem: "(''docker-all'',
      [(''name'', JStr ''All Docker Containers''),
       (''description'', JStr ''Intercept all local Docker traffic''),
       (''iconProps'', JImport ''SourceIcons.Docker''),
       (''tags'', tags_value DOCKER_TAGS),
       (''id'', JStr ''docker-all''),
       (''isSupported'', JBool False),
       (''isActive'', JBool False),
       (''isActivable'', JBool False)])
     \<in> set (getInterceptOptions semver_satisfies ''^0.1.20'' [] None [])"
    by code_simp
  show ?thesis
    using bspec [OF unsupported_never_active
        [of semver_satisfies "''^0.1.20''" "[]" None "[]"] mem] mem
    by (simp add: get_def)
qed

text \<open>
  C10. The client-only descriptors of the table are \<^verbatim>\<open>android-device\<close> and
  \<^verbatim>\<open>manual-setup\<close>. For each of them, with the feature flags and the server version
  fixed, the entry is the same for every list of server statuses as for the empty list.
  It consists of the descriptor's fields and \<^verbatim>\<open>id\<close>, \<^verbatim>\<open>isSupported\<close>, \<^verbatim>\<open>isActive\<close>,
  \<^verbatim>\<open>isActivable\<close> only, so no field reported by the server appears in it: its
  \<^verbatim>\<open>isActive\<close> is \<^verbatim>\<open>false\<close> and it has no \<^verbatim>\<open>version\<close>.
\<close>

theorem clientOnly_ignores_server:
  "map fst (filter (\<lambda>(i, d). truthy (get d ''clientOnly'')) INTERCEPT_OPTIONS) =
     [''android-device'', ''manual-setup''] \<and>
   ((i, d) \<in> set INTERCEPT_OPTIONS \<and> truthy (get d ''clientOnly'') \<longrightarrow>
     map_of (getInterceptOptions sat R arr sv ff) i =
       map_of (getInterceptOptions sat R [] sv ff) i \<and>
     (\<exists>b. map_option map_of (map_of (getInterceptOptions sat R arr sv ff) i) =
       Some (map_of d ++ map_of [(''id'', JStr i), (''isSupported'', JBool b),
               (''isActive'', JBool False), (''isActivable'', JBool b)])) \<and>
     field_of (getInterceptOptions sat R arr sv ff) i ''isActive'' = Some (JBool False) \<and>
     field_of (getInterceptOptions sat R arr sv ff) i ''version'' = Some JUndefined)"
proof (intro conjI impI; (elim conjE)?)
  show "map fst (filter (\<lambda>(i, d). truthy (get d ''clientOnly'')) INTERCEPT_OPTIONS) =
     [''android-device'', ''manual-setup'']"
    by code_simp
next
  assume mem: "(i, d) \<in> set INTERCEPT_OPTIONS" and co: "truthy (get d ''clientOnly'')"
  show "map_of (getInterceptOptions sat R arr sv ff) i =
       map_of (getInterceptOptions sat R [] sv ff) i"
    using mem by (simp add: entry_of clientOnly_interceptOption [OF mem co, of sat R "keyBy_id arr"]
        clientOnly_interceptOption [OF mem co, of sat R "keyBy_id []"])
next
  assume mem: "(i, d) \<in> set INTERCEPT_OPTIONS" and co: "truthy (get d ''clientOnly'')"
  have "interceptOption sat R (keyBy_id arr) sv ff d i =
     assign [] [d, [(''id'', JStr i), (''isSupported'', JBool False),
                    (''isActive'', JBool False), (''isActivable'', JBool False)]] \<or>
     interceptOption sat R (keyBy_id arr) sv ff d i =
     assign [] [d, [(''id'', JStr i), (''isSupported'', JBool True),
                    (''isActive'', JBool False), (''isActivable'', JBool True)]]"
    using co by (simp add: interceptOption_def)
  then show "\<exists>b. map_option map_of (map_of (getInterceptOptions sat R arr sv ff) i) =
       Some (map_of d ++ map_of [(''id'', JStr i), (''isSupported'', JBool b),
               (''isActive'', JBool False), (''isActivable'', JBool b)])"
    using mem by (auto simp: entry_of map_of_assign2 distinct_option)
next
  assume mem: "(i, d) \<in> set INTERCEPT_OPTIONS" and co: "truthy (get d ''clientOnly'')"
  have "interceptOption sat R (keyBy_id arr) sv ff d i =
     assign [] [d, [(''id'', JStr i), (''isSupported'', JBool False),
                    (''isActive'', JBool False), (''isActivable'', JBool False)]] \<or>
     interceptOption sat R (keyBy_id arr) sv ff d i =
     assign [] [d, [(''id'', JStr i), (''isSupported'', JBool True),
                    (''isActive'', JBool False), (''isActivable'', JBool True)]]"
    using co by (simp add: interceptOption_def)
  then show "field_of (getInterceptOptions sat R arr sv ff) i ''isActive'' = Some (JBool False)"
    using mem by (auto simp: field_of_entry [OF mem] get_assign2 distinct_option)
next
  assume mem: "(i, d) \<in> set INTERCEPT_OPTIONS" and co: "truthy (get d ''clientOnly'')"
  have nv: "get d ''version'' = JUndefined"
    using clientOnly_options [OF mem co] by blast
  have "interceptOption sat R (keyBy_id arr) sv ff d i =
     assign [] [d, [(''id'', JStr i), (''isSupported'', JBool False),
                    (''isActive'', JBool False), (''isActivable'', JBool False)]] \<or>
     interceptOption sat R (keyBy_id arr) sv ff d i =
     assign [] [d, [(''id'', JStr i), (''isSupported'', JBool True),
                    (''isActive'', JBool False), (''isActivable'', JBool True)]]"
    using co by (simp add: interceptOption_def)
  then show "field_of (getInterceptOptions sat R arr sv ff) i ''version'' = Some JUndefined"
    using mem nv by (auto simp: field_of_entry [OF mem] get_assign2 distinct_option)
qed

text \<open>
  The entry \<^verbatim>\<open>android-device\<close> with the flag set and the server version in range, against
  a server that reports the id as active with an additional field.
\<close>

theorem clientOnly_ignores_server_witness:
  "(''android-device'',
      [(''name'', JStr ''An Android device''),
       (''description'',
          JStr ''Intercept all HTTP traffic from an Android device on your network''),
       (''iconProps'', JImport ''SourceIcons.Android''),
       (''checkRequirements'', JFun android_device_checkRequirements),
       (''clientOnly'', JBool True),
       (''uiConfig'', JImport ''AndroidCustomUi''),
       (''tags'', tags_value (MOBILE_TAGS @ ANDROID_TAGS))])
     \<in> set INTERCEPT_OPTIONS \<and>
   map_of (getInterceptOptions semver_satisfies ''^0.1.20''
     [\<lparr>id_s = ''android-device'', version = ''9.9.9'', isActive = True, isActivable = True,
       extra = [(''metadata'', JStr ''m'')]\<rparr>] (Some ''0.1.25'') [''android''])
     ''android-device'' =
   map_of (getInterceptOptions semver_satisfies ''^0.1.20'' [] (Some ''0.1.25'') [''android''])
     ''android-device'' \<and>
   field_of (getInterceptOptions semver_satisfies ''^0.1.20''
     [\<lparr>id_s = ''android-device'', version = ''9.9.9'', isActive = True, isActivable = True,
       extra = [(''metadata'', JStr ''m'')]\<rparr>] (Some ''0.1.25'') [''android''])
     ''android-device'' ''isActive'' = Some (JBool False) \<and>
   field_of (getInterceptOptions semver_satisfies ''^0.1.20''
     [\<lparr>id_s = ''android-device'', version = ''9.9.9'', isActive = True, isActivable = True,
       extra = [(''metadata'', JStr ''m'')]\<rparr>] (Some ''0.1.25'') [''android''])
     ''android-device'' ''version'' = Some JUndefined \<and>
   field_of (getInterceptOptions semver_satisfies ''^0.1.20''
     [\<lparr>id_s = ''android-device'', version = ''9.9.9'', isActive = True, isActivable = True,
       extra = [(''metadata'', JStr ''m'')]\<rparr>] (Some ''0.1.25'') [''android''])
     ''android-device'' ''isSupported'' = Some (JBool True)"
proof -
  have co: "truthy (get
      [(''name'', JStr ''An Android device''),
       (''description'',
          JStr ''Intercept all HTTP traffic from an Android device on your network''),
       (''iconProps'', JImport ''SourceIcons.Android''),
       (''checkRequirements'', JFun android_device_checkRequirements),
       (''clientOnly'', JBool True),
       (''uiConfig'', JImport ''AndroidCustomUi''),
       (''tags'', tags_value (MOBILE_TAGS @ ANDROID_TAGS))] ''clientOnly'')"
    by (simp add: get_def)
  have sup: "field_of (getInterceptOptions semver_satisfies ''^0.1.20''
     [\<lparr>id_s = ''android-device'', version = ''9.9.9'', isActive = True, isActivable = True,
       extra = [(''metadata'', JStr ''m'')]\<rparr>] (Some ''0.1.25'') [''android''])
     ''android-device'' ''isSupported'' = Some (JBool True)"
    by code_simp
  show ?thesis
    using clientOnly_ignores_server [of "''android-device''"
      "[(''name'', JStr ''An Android device''),
       (''description'',
          JStr ''Intercept all HTTP traffic from an Android device on your network''),
       (''iconProps'', JImport ''SourceIcons.Android''),
       (''checkRequirements'', JFun android_device_checkRequirements),
       (''clientOnly'', JBool True),
       (''uiConfig'', JImport ''AndroidCustomUi''),
       (''tags'', tags_value (MOBILE_TAGS @ ANDROID_TAGS))]"
      semver_satisfies "''^0.1.20''"
      "[\<lparr>id_s = ''android-device'', version = ''9.9.9'', isActive = True, isActivable = True,
       extra = [(''metadata'', JStr ''m'')]\<rparr>]" "Some ''0.1.25''" "[''android'']"]
      android_mem co sup
    by simp
qed

end
